theory Spec2Isabelle
  imports Complex_Main "HOL-Library.Sublist"
begin

section \<open>Python values and exceptions\<close>

text \<open>
  The server handles parsed JSON (the result of \<^verbatim>\<open>response.json()\<close>) and is
  dynamically typed, so the model has one type of values. Conventions:
  \<^item> a Python \<^verbatim>\<open>int\<close> is an \<open>int\<close>; a Python \<^verbatim>\<open>float\<close> is the rational it stands for
    (rounding of binary floating point is not modelled, \<^verbatim>\<open>nan\<close> and \<^verbatim>\<open>inf\<close> are left out);
  \<^item> a Python \<^verbatim>\<open>str\<close> is a \<open>string\<close>, each \<open>char\<close> read as a code point below 256;
  \<^item> a Python \<^verbatim>\<open>dict\<close> with string keys is an association list read with
    \<open>map_of\<close> (the first binding of a key is the one the dict holds);
  \<^item> a raised exception is a value \<open>Inl e\<close>; \<open>bindE\<close> sequences two steps and
    stops at the first exception, as Python's evaluation order does.
\<close>

datatype json =
    JNull
  | JBool bool
  | JInt int
  | JFloat rat
  | JStr string
  | JList "json list"
  | JObj "(string \<times> json) list"

datatype exc =
    KeyError | TypeError | AttributeError | OverflowError | ValueError | IndexError

definition bindE :: "exc + 'a \<Rightarrow> ('a \<Rightarrow> exc + 'b) \<Rightarrow> exc + 'b" where
  "bindE m f = (case m of Inl e \<Rightarrow> Inl e | Inr x \<Rightarrow> f x)"

text \<open>Truth value testing (\<^verbatim>\<open>if x\<close>, \<^verbatim>\<open>not x\<close>, \<^verbatim>\<open>x or y\<close>).\<close>

fun truthy :: "json \<Rightarrow> bool" where
  "truthy JNull = False"
| "truthy (JBool b) = b"
| "truthy (JInt n) = (n \<noteq> 0)"
| "truthy (JFloat r) = (r \<noteq> 0)"
| "truthy (JStr s) = (s \<noteq> [])"
| "truthy (JList xs) = (xs \<noteq> [])"
| "truthy (JObj kvs) = (kvs \<noteq> [])"

definition py_or :: "json \<Rightarrow> json \<Rightarrow> json" where
  "py_or a b = (if truthy a then a else b)"

text \<open>\<^verbatim>\<open>isinstance(x, dict)\<close>.\<close>

fun is_dict :: "json \<Rightarrow> bool" where
  "is_dict (JObj kvs) = True"
| "is_dict _ = False"

text \<open>\<^verbatim>\<open>x.get(k, d)\<close>: only a dict has the method.\<close>

fun py_get :: "json \<Rightarrow> string \<Rightarrow> json \<Rightarrow> exc + json" where
  "py_get (JObj kvs) k d = Inr (case map_of kvs k of None \<Rightarrow> d | Some v \<Rightarrow> v)"
| "py_get _ k d = Inl AttributeError"

text \<open>\<^verbatim>\<open>x[k]\<close> with a string key \<open>k\<close>: \<^verbatim>\<open>KeyError\<close> on a dict without the key,
  \<^verbatim>\<open>TypeError\<close> on every other value (lists and strings want integer indices,
  the rest is not subscriptable).\<close>

fun py_getitem :: "json \<Rightarrow> string \<Rightarrow> exc + json" where
  "py_getitem (JObj kvs) k = (case map_of kvs k of None \<Rightarrow> Inl KeyError | Some v \<Rightarrow> Inr v)"
| "py_getitem _ k = Inl TypeError"

text \<open>Iteration (\<^verbatim>\<open>for x in v\<close>): a list yields its elements, a dict its keys, a
  string its characters; nothing else is iterable.\<close>

fun py_iter :: "json \<Rightarrow> exc + json list" where
  "py_iter (JList xs) = Inr xs"
| "py_iter (JObj kvs) = Inr (map JStr (remdups (map fst kvs)))"
| "py_iter (JStr s) = Inr (map (\<lambda>c. JStr [c]) s)"
| "py_iter _ = Inl TypeError"

text \<open>Dictionary keys. Lists and dicts are unhashable; \<^verbatim>\<open>True == 1 == 1.0\<close> and
  \<^verbatim>\<open>False == 0 == 0.0\<close> are one key each, as in Python.\<close>

datatype pykey = KNone | KNum rat | KStr string

fun py_hash :: "json \<Rightarrow> exc + pykey" where
  "py_hash JNull = Inr KNone"
| "py_hash (JBool b) = Inr (KNum (if b then 1 else 0))"
| "py_hash (JInt n) = Inr (KNum (of_int n))"
| "py_hash (JFloat r) = Inr (KNum r)"
| "py_hash (JStr s) = Inr (KStr s)"
| "py_hash (JList xs) = Inl TypeError"
| "py_hash (JObj kvs) = Inl TypeError"

text \<open>\<^verbatim>\<open>s.strip()\<close>: the whitespace code points below 256 are 9 to 13, 28 to 32,
  133 and 160. Only a string has the method.\<close>

definition is_space :: "char \<Rightarrow> bool" where
  "is_space c = (of_char c \<in> {9, 10, 11, 12, 13, 28, 29, 30, 31, 32, 133, 160 :: nat})"

definition strip :: "string \<Rightarrow> string" where
  "strip s = rev (dropWhile is_space (rev (dropWhile is_space s)))"

fun py_strip :: "json \<Rightarrow> exc + string" where
  "py_strip (JStr s) = Inr (strip s)"
| "py_strip _ = Inl AttributeError"

text \<open>\<^verbatim>\<open>x / 100\<close> (true division). An \<^verbatim>\<open>int\<close> whose quotient rounds to \<open>2 ^ 1024\<close>
  or more raises \<^verbatim>\<open>OverflowError\<close> (the largest double is \<open>2 ^ 1024 - 2 ^ 971\<close>, and
  the halfway point \<open>2 ^ 1024 - 2 ^ 970\<close> already rounds up); \<^verbatim>\<open>bool\<close> is a
  subclass of \<^verbatim>\<open>int\<close>; \<^verbatim>\<open>None\<close>, strings, lists and dicts raise \<^verbatim>\<open>TypeError\<close>.\<close>

definition float_limit :: int where
  "float_limit = 2 ^ 1024 - 2 ^ 970"

fun truediv100 :: "json \<Rightarrow> exc + rat" where
  "truediv100 (JInt n) =
     (if 100 * float_limit \<le> \<bar>n\<bar> then Inl OverflowError else Inr (of_int n / 100))"
| "truediv100 (JBool b) = Inr ((if b then 1 else 0) / 100)"
| "truediv100 (JFloat r) = Inr (r / 100)"
| "truediv100 _ = Inl TypeError"

section \<open>WebfleetScraper.get_positions\<close>

text \<open>The dict appended to \<^verbatim>\<open>positions\<close> for one object. Fields copied from the JSON
  keep whatever value the JSON held.\<close>

text \<open>(\<open>vtype\<close> is the entry \<^verbatim>\<open>"type"\<close>.)\<close>

record PositionRecord =
  object_id :: json
  number :: json
  name :: json
  license_plate :: string
  vtype :: json
  latitude :: json
  longitude :: json
  address :: json
  speed :: json
  ignition :: json
  stand_still :: json
  last_gps_time :: json
  odometer_km :: rat

text \<open>\<^verbatim>\<open>self.intercepted_data\<close>: \<open>None\<close> is a key the dict does not have, \<open>Some JNull\<close>
  the initial \<^verbatim>\<open>None\<close>.\<close>

record intercepted_data =
  objects :: "json option"
  telemetry :: "json option"

text \<open>\<^verbatim>\<open>self.intercepted_data.get(k, []) or []\<close>.\<close>

definition captured :: "json option \<Rightarrow> json" where
  "captured v = py_or (case v of None \<Rightarrow> JList [] | Some x \<Rightarrow> x) (JList [])"

text \<open>The dictionary key of a record's \<^verbatim>\<open>objectId\<close>: \<^verbatim>\<open>x["objectId"]\<close>, hashed when
  it is used as a key.\<close>

definition object_key :: "json \<Rightarrow> exc + pykey" where
  "object_key x = bindE (py_getitem x ''objectId'') py_hash"

text \<open>\<^verbatim>\<open>telem_map = {t["objectId"]: t for t in telemetry}\<close>: a later record replaces
  an earlier one with an equal key.\<close>

fun build_telem_map :: "json list \<Rightarrow> (pykey \<rightharpoonup> json) \<Rightarrow> exc + (pykey \<rightharpoonup> json)" where
  "build_telem_map [] m = Inr m"
| "build_telem_map (t # ts) m =
     bindE (object_key t) (\<lambda>k. build_telem_map ts (m(k \<mapsto> t)))"

text \<open>\<^verbatim>\<open>telem = telem_map.get(obj["objectId"], {})\<close>.\<close>

definition lookup_telem :: "(pykey \<rightharpoonup> json) \<Rightarrow> json \<Rightarrow> exc + json" where
  "lookup_telem telem_map obj =
     bindE (object_key obj) (\<lambda>k.
     Inr (case telem_map k of None \<Rightarrow> JObj [] | Some t \<Rightarrow> t))"

text \<open>\<^verbatim>\<open>pos = telem.get("position", obj.get("position", {})) or {}\<close>.\<close>

definition resolve_pos :: "json \<Rightarrow> json \<Rightarrow> exc + json" where
  "resolve_pos telem obj =
     bindE (py_get obj ''position'' (JObj [])) (\<lambda>d.
     bindE (py_get telem ''position'' d) (\<lambda>p.
     Inr (py_or p (JObj []))))"

text \<open>\<^verbatim>\<open>pos.get(k) if isinstance(pos, dict) else None\<close>.\<close>

definition pos_field :: "json \<Rightarrow> string \<Rightarrow> exc + json" where
  "pos_field pos k = (if is_dict pos then py_get pos k JNull else Inr JNull)"

text \<open>The \<^verbatim>\<open>"address"\<close> entry.\<close>

definition resolve_address :: "json \<Rightarrow> json \<Rightarrow> exc + json" where
  "resolve_address pos obj =
     (if is_dict pos
      then bindE (py_get pos ''location'' (JObj [])) (\<lambda>loc. py_get loc ''address'' (JStr []))
      else bindE (py_get obj ''locationDescription'' (JObj [])) (\<lambda>loc.
             py_get loc ''address'' (JStr [])))"

text \<open>The body of the \<^verbatim>\<open>for obj in objects\<close> loop: the entries of the dict literal
  are evaluated in the order they are written.\<close>

definition position_record :: "(pykey \<rightharpoonup> json) \<Rightarrow> json \<Rightarrow> exc + PositionRecord" where
  "position_record telem_map obj =
     bindE (lookup_telem telem_map obj) (\<lambda>telem.
     bindE (resolve_pos telem obj) (\<lambda>pos.
     bindE (py_get obj ''objectId'' JNull) (\<lambda>v_object_id.
     bindE (py_get obj ''number'' (JStr [])) (\<lambda>v_number.
     bindE (py_get obj ''name'' (JStr [])) (\<lambda>v_name.
     bindE (bindE (py_get obj ''licensePlate'' (JStr [])) py_strip) (\<lambda>v_license_plate.
     bindE (py_get obj ''type'' (JStr [])) (\<lambda>v_type.
     bindE (pos_field pos ''latitude'') (\<lambda>v_latitude.
     bindE (pos_field pos ''longitude'') (\<lambda>v_longitude.
     bindE (resolve_address pos obj) (\<lambda>v_address.
     bindE (py_get telem ''speed'' (JInt 0)) (\<lambda>v_speed.
     bindE (py_get telem ''ignition'' (JStr ''UNKNOWN'')) (\<lambda>v_ignition.
     bindE (py_get telem ''standStill'' (JBool False)) (\<lambda>v_stand_still.
     bindE (pos_field pos ''time'') (\<lambda>t.
     bindE (py_get obj ''lastGpsTime'' (JStr [])) (\<lambda>g.
     bindE (bindE (py_get obj ''odometer'' (JInt 0)) truediv100) (\<lambda>v_odometer_km.
     Inr \<lparr> object_id = v_object_id, number = v_number, name = v_name,
           license_plate = v_license_plate, vtype = v_type,
           latitude = v_latitude, longitude = v_longitude, address = v_address,
           speed = v_speed, ignition = v_ignition, stand_still = v_stand_still,
           last_gps_time = py_or t g, odometer_km = v_odometer_km \<rparr>))))))))))))))))"

fun positions_loop ::
  "(pykey \<rightharpoonup> json) \<Rightarrow> json list \<Rightarrow> PositionRecord list \<Rightarrow> exc + PositionRecord list" where
  "positions_loop telem_map [] positions = Inr positions"
| "positions_loop telem_map (obj # objs) positions =
     bindE (position_record telem_map obj) (\<lambda>r.
     positions_loop telem_map objs (positions @ [r]))"

definition get_positions :: "intercepted_data \<Rightarrow> exc + PositionRecord list" where
  "get_positions d =
     (let objs = captured (objects d); telem = captured (telemetry d)
      in if \<not> truthy objs then Inr []
         else bindE (py_iter telem) (\<lambda>ts.
              bindE (build_telem_map ts Map.empty) (\<lambda>telem_map.
              bindE (py_iter objs) (\<lambda>os.
              positions_loop telem_map os []))))"

section \<open>DataCache\<close>

text \<open>
  A \<^verbatim>\<open>datetime\<close> is its number of microseconds on the clock, and \<^verbatim>\<open>datetime.now()\<close>
  is an argument \<open>now\<close> of every method that reads the clock. The lock is not
  modelled: each method is one atomic step. Lists are values: \<^verbatim>\<open>get()\<close> hands out
  the very list object the cache holds, but no code of the server changes a list in
  place (a filter builds a new list and rebinds the key of the fresh dict).
\<close>

record DataCache =
  positions :: "PositionRecord list"
  last_update :: "int option"
  error :: "string option"
  login_count :: int
  refresh_count :: int

definition DataCache_init :: DataCache where
  "DataCache_init =
     \<lparr> positions = [], last_update = None, error = None, login_count = 0, refresh_count = 0 \<rparr>"

definition update :: "PositionRecord list \<Rightarrow> int \<Rightarrow> DataCache \<Rightarrow> DataCache" where
  "update new_positions now c =
     c \<lparr> positions := new_positions, last_update := Some now, error := None,
         refresh_count := refresh_count c + 1 \<rparr>"

text \<open>\<open>e\<close> is \<^verbatim>\<open>str(error)\<close>.\<close>

definition set_error :: "string \<Rightarrow> DataCache \<Rightarrow> DataCache" where
  "set_error e c = c \<lparr> error := Some e \<rparr>"

text \<open>The dict \<^verbatim>\<open>get()\<close> returns. \<open>v_last_update\<close> stands for the ISO string of the
  time stamp, which is never empty. \<^verbatim>\<open>round(age, 1)\<close> works on a binary float, so the
  rounding function is an argument \<open>round1\<close>; \<open>age\<close> itself is the exact number of
  seconds.\<close>

record snapshot_view =
  v_positions :: "PositionRecord list"
  v_count :: nat
  v_last_update :: "int option"
  v_cache_age_seconds :: "rat option"
  v_error :: "string option"

definition get :: "(rat \<Rightarrow> rat) \<Rightarrow> int \<Rightarrow> DataCache \<Rightarrow> snapshot_view" where
  "get round1 now c =
     (let age = (case last_update c of
                   None \<Rightarrow> None
                 | Some t \<Rightarrow> Some (of_int (now - t) / 1000000))
      in \<lparr> v_positions = positions c,
           v_count = length (positions c),
           v_last_update = last_update c,
           v_cache_age_seconds =
             (case age of None \<Rightarrow> None | Some a \<Rightarrow> if a \<noteq> 0 then Some (round1 a) else None),
           v_error = error c \<rparr>)"

record stats_view =
  s_login_count :: int
  s_refresh_count :: int
  s_vehicle_count :: nat
  s_last_update :: "int option"
  s_error :: "string option"

definition stats :: "DataCache \<Rightarrow> stats_view" where
  "stats c =
     \<lparr> s_login_count = login_count c,
       s_refresh_count = refresh_count c,
       s_vehicle_count = length (positions c),
       s_last_update = last_update c,
       s_error = error c \<rparr>"

section \<open>APIHandler\<close>

text \<open>
  A request is \<^verbatim>\<open>self.path\<close> and the \<^verbatim>\<open>Authorization\<close> header (\<open>None\<close> when the
  request has none). The environment holds the global \<^verbatim>\<open>API_KEY\<close> and the library
  functions whose text is not part of the server: \<^verbatim>\<open>urlparse\<close> (which raises
  \<^verbatim>\<open>ValueError\<close> on some targets), \<^verbatim>\<open>parse_qs\<close>, \<^verbatim>\<open>round(_, 1)\<close> and \<^verbatim>\<open>str.upper\<close>.
\<close>

record request =
  path :: string
  authorization :: "string option"

record parsed_url =
  url_path :: string
  url_query :: string

record env =
  API_KEY :: string
  urlparse :: "string \<Rightarrow> exc + parsed_url"
  parse_qs :: "string \<Rightarrow> (string \<rightharpoonup> string list)"
  round1 :: "rat \<Rightarrow> rat"
  upper :: "string \<Rightarrow> string"

datatype body =
    HealthBody string stats_view
  | SnapshotBody snapshot_view
  | StatsBody stats_view
  | ErrorBody string
  | NotFoundBody string "string list"
  | NoBody

record response =
  status :: nat
  body :: body

definition send_json :: "body \<Rightarrow> nat \<Rightarrow> response" where
  "send_json data st = \<lparr> status = st, body = data \<rparr>"

text \<open>\<^verbatim>\<open>secrets.compare_digest\<close> on two strings: equality, and \<^verbatim>\<open>TypeError\<close> when one
  of them has a character outside ASCII.\<close>

definition is_ascii :: "string \<Rightarrow> bool" where
  "is_ascii s = list_all (\<lambda>c. of_char c < (128 :: nat)) s"

definition compare_digest :: "string \<Rightarrow> string \<Rightarrow> exc + bool" where
  "compare_digest a b = (if is_ascii a \<and> is_ascii b then Inr (a = b) else Inl TypeError)"

text \<open>\<^verbatim>\<open>params.get(k, [None])[0]\<close>.\<close>

definition first_param :: "(string \<rightharpoonup> string list) \<Rightarrow> string \<Rightarrow> exc + string option" where
  "first_param params k =
     (case params k of
        None \<Rightarrow> Inr None
      | Some [] \<Rightarrow> Inl IndexError
      | Some (v # vs) \<Rightarrow> Inr (Some v))"

definition check_auth :: "env \<Rightarrow> request \<Rightarrow> exc + bool" where
  "check_auth e req =
     (if API_KEY e = [] then Inr True
      else
        let auth = (case authorization req of None \<Rightarrow> [] | Some a \<Rightarrow> a) in
        bindE (if prefix ''Bearer '' auth then compare_digest (drop 7 auth) (API_KEY e)
               else Inr False) (\<lambda>header_ok.
        if header_ok then Inr True
        else
          bindE (urlparse e (path req)) (\<lambda>parsed.
          bindE (first_param (parse_qs e (url_query parsed)) ''api_key'') (\<lambda>key.
          case key of
            None \<Rightarrow> Inr False
          | Some k \<Rightarrow> if k = [] then Inr False else compare_digest k (API_KEY e)))))"

text \<open>Truth value of \<^verbatim>\<open>data["error"]\<close> and of a query parameter: \<^verbatim>\<open>None\<close> and the
  empty string are false.\<close>

definition truthy_str :: "string option \<Rightarrow> bool" where
  "truthy_str v = (case v of None \<Rightarrow> False | Some s \<Rightarrow> s \<noteq> [])"

text \<open>The string a true query parameter holds.\<close>

definition the_str :: "string option \<Rightarrow> string" where
  "the_str v = (case v of None \<Rightarrow> [] | Some s \<Rightarrow> s)"

text \<open>\<^verbatim>\<open>data["last_update"] and not data["error"]\<close>.\<close>

definition is_healthy :: "stats_view \<Rightarrow> bool" where
  "is_healthy data = (s_last_update data \<noteq> None \<and> \<not> truthy_str (s_error data))"

definition do_HEAD :: "request \<Rightarrow> DataCache \<Rightarrow> response \<times> DataCache" where
  "do_HEAD req c =
     (if path req = ''/health''
      then let data = stats c; st = (if is_healthy data then 200 else 503)
           in (\<lparr> status = st, body = NoBody \<rparr>, c)
      else (\<lparr> status = 404, body = NoBody \<rparr>, c))"

text \<open>\<^verbatim>\<open>x > 0\<close> and \<^verbatim>\<open>x == 0\<close> on a JSON value: the order is defined on numbers only,
  equality on everything.\<close>

fun py_gt0 :: "json \<Rightarrow> exc + bool" where
  "py_gt0 (JInt n) = Inr (0 < n)"
| "py_gt0 (JFloat r) = Inr (0 < r)"
| "py_gt0 (JBool b) = Inr b"
| "py_gt0 _ = Inl TypeError"

fun py_eq0 :: "json \<Rightarrow> bool" where
  "py_eq0 (JInt n) = (n = 0)"
| "py_eq0 (JFloat r) = (r = 0)"
| "py_eq0 (JBool b) = (\<not> b)"
| "py_eq0 _ = False"

text \<open>A list comprehension \<^verbatim>\<open>[p for p in xs if cond(p)]\<close> whose condition can raise.\<close>

fun comprehension :: "('a \<Rightarrow> exc + bool) \<Rightarrow> 'a list \<Rightarrow> exc + 'a list" where
  "comprehension cond [] = Inr []"
| "comprehension cond (p # ps) =
     bindE (cond p) (\<lambda>keep.
     bindE (comprehension cond ps) (\<lambda>rest.
     Inr (if keep then p # rest else rest)))"

text \<open>\<^verbatim>\<open>not p["stand_still"] or p["speed"] > 0\<close>.\<close>

definition moving_cond :: "PositionRecord \<Rightarrow> exc + bool" where
  "moving_cond p = (if \<not> truthy (stand_still p) then Inr True else py_gt0 (speed p))"

text \<open>\<^verbatim>\<open>p["stand_still"] and p["speed"] == 0\<close>.\<close>

definition stopped_cond :: "PositionRecord \<Rightarrow> exc + bool" where
  "stopped_cond p = Inr (truthy (stand_still p) \<and> py_eq0 (speed p))"

text \<open>The branches of \<^verbatim>\<open>do_GET\<close> that filter: each starts from \<^verbatim>\<open>cache.get()\<close>,
  replaces \<^verbatim>\<open>data["positions"]\<close> and then sets \<^verbatim>\<open>data["count"]\<close>.\<close>

definition with_positions :: "PositionRecord list \<Rightarrow> snapshot_view \<Rightarrow> snapshot_view" where
  "with_positions ps data = data \<lparr> v_positions := ps, v_count := length ps \<rparr>"

definition positions_vehicle ::
  "env \<Rightarrow> int \<Rightarrow> (string \<rightharpoonup> string list) \<Rightarrow> DataCache \<Rightarrow> exc + snapshot_view" where
  "positions_vehicle e now params c =
     bindE (first_param params ''plate'') (\<lambda>plate.
     bindE (first_param params ''number'') (\<lambda>num.
     let data = get (round1 e) now c in
     Inr (with_positions
       (if truthy_str plate
        then [p \<leftarrow> v_positions data.
                sublist (upper e (the_str plate)) (upper e (license_plate p))]
        else if truthy_str num
        then [p \<leftarrow> v_positions data. number p = JStr (the_str num)]
        else v_positions data) data)))"

definition positions_moving :: "env \<Rightarrow> int \<Rightarrow> DataCache \<Rightarrow> exc + snapshot_view" where
  "positions_moving e now c =
     (let data = get (round1 e) now c in
      bindE (comprehension moving_cond (v_positions data)) (\<lambda>ps.
      Inr (with_positions ps data)))"

definition positions_stopped :: "env \<Rightarrow> int \<Rightarrow> DataCache \<Rightarrow> exc + snapshot_view" where
  "positions_stopped e now c =
     (let data = get (round1 e) now c in
      bindE (comprehension stopped_cond (v_positions data)) (\<lambda>ps.
      Inr (with_positions ps data)))"

definition unauthorized_message :: string where
  "unauthorized_message =
     ''Unauthorized. Use '' @ [CHR 0x27] @ ''Authorization: Bearer <API_KEY>'' @ [CHR 0x27]
     @ '' header''"

definition endpoints :: "string list" where
  "endpoints =
     [''GET /health - Health check (no auth)'',
      ''GET /positions - All positions'',
      ''GET /positions/vehicle?plate=XX - Filter by plate'',
      ''GET /positions/vehicle?number=001 - Filter by number'',
      ''GET /positions/moving - Moving vehicles only'',
      ''GET /positions/stopped - Stopped vehicles only'',
      ''GET /stats - Service statistics'']"

definition snapshot_response :: "exc + snapshot_view \<Rightarrow> exc + response" where
  "snapshot_response r = bindE r (\<lambda>data. Inr (send_json (SnapshotBody data) 200))"

text \<open>The routes behind the authentication check. An exception leaves the handler
  without a response.\<close>

definition dispatch :: "env \<Rightarrow> int \<Rightarrow> parsed_url \<Rightarrow> DataCache \<Rightarrow> exc + response" where
  "dispatch e now parsed c =
     (let p = url_path parsed; params = parse_qs e (url_query parsed) in
      if p = ''/positions'' \<or> p = ''/'' then snapshot_response (Inr (get (round1 e) now c))
      else if p = ''/positions/vehicle'' then snapshot_response (positions_vehicle e now params c)
      else if p = ''/positions/moving'' then snapshot_response (positions_moving e now c)
      else if p = ''/positions/stopped'' then snapshot_response (positions_stopped e now c)
      else if p = ''/stats'' then Inr (send_json (StatsBody (stats c)) 200)
      else Inr (send_json (NotFoundBody ''Not found'' endpoints) 404))"

definition do_GET :: "env \<Rightarrow> int \<Rightarrow> request \<Rightarrow> DataCache \<Rightarrow> (exc + response) \<times> DataCache" where
  "do_GET e now req c =
     (if path req = ''/health''
      then let data = stats c;
               st = (if is_healthy data then ''healthy'' else ''unhealthy'')
           in (Inr (send_json (HealthBody st data) 200), c)
      else
        (case check_auth e req of
           Inl x \<Rightarrow> (Inl x, c)
         | Inr False \<Rightarrow> (Inr (send_json (ErrorBody unauthorized_message) 401), c)
         | Inr True \<Rightarrow>
             (case urlparse e (path req) of
                Inl x \<Rightarrow> (Inl x, c)
              | Inr parsed \<Rightarrow> (dispatch e now parsed c, c))))"

section \<open>Vocabulary of the statements\<close>

text \<open>Plain readings of a JSON value, used to state what the functions above
  compute: none of them raises. \<open>field x k\<close> is the entry of the dict \<open>x\<close> under \<open>k\<close>
  (\<open>None\<close> when there is none, or when \<open>x\<close> is no dict), \<open>field_or\<close> the same with a
  default.\<close>

fun field :: "json \<Rightarrow> string \<Rightarrow> json option" where
  "field (JObj kvs) k = map_of kvs k"
| "field _ k = None"

definition field_or :: "json \<Rightarrow> string \<Rightarrow> json \<Rightarrow> json" where
  "field_or x k d = (case field x k of None \<Rightarrow> d | Some v \<Rightarrow> v)"

text \<open>The telemetry record that matches a key: the last one of the list whose
  \<^verbatim>\<open>objectId\<close> is that key; \<open>telem_of\<close> puts the empty dict where none matches.\<close>

definition matching_telemetry :: "json list \<Rightarrow> pykey \<Rightarrow> json option" where
  "matching_telemetry ts k = find (\<lambda>t. object_key t = Inr k) (rev ts)"

definition telem_of :: "json option \<Rightarrow> json" where
  "telem_of mt = (case mt of None \<Rightarrow> JObj [] | Some t \<Rightarrow> t)"

text \<open>The position chosen for an object: the entry \<^verbatim>\<open>position\<close> of the telemetry record
  when it has one (whatever it holds), else that of the object, else the empty dict.\<close>

definition chosen_position :: "json \<Rightarrow> json \<Rightarrow> json" where
  "chosen_position telem obj =
     (case field telem ''position'' of
        Some p \<Rightarrow> p
      | None \<Rightarrow> (case field obj ''position'' of Some p \<Rightarrow> p | None \<Rightarrow> JObj []))"

text \<open>Well-formed captures. A record has an id when its \<^verbatim>\<open>objectId\<close> is present and
  hashable; a position is acceptable when it is not a dict, or a dict whose
  \<^verbatim>\<open>location\<close> is missing or a dict; an odometer is divisible when it is a number whose
  hundredth is in the range of a float; \<open>number_value\<close> reads a number (\<^verbatim>\<open>True\<close> is 1).\<close>

fun hashable :: "json \<Rightarrow> bool" where
  "hashable (JList xs) = False"
| "hashable (JObj kvs) = False"
| "hashable _ = True"

fun is_str :: "json \<Rightarrow> bool" where
  "is_str (JStr s) = True"
| "is_str _ = False"

fun divisible :: "json \<Rightarrow> bool" where
  "divisible (JInt n) = (\<bar>n\<bar> < 100 * float_limit)"
| "divisible (JFloat r) = True"
| "divisible (JBool b) = True"
| "divisible _ = False"

fun number_value :: "json \<Rightarrow> rat" where
  "number_value (JInt n) = of_int n"
| "number_value (JFloat r) = r"
| "number_value (JBool b) = (if b then 1 else 0)"
| "number_value _ = 0"

definition absent_or :: "(json \<Rightarrow> bool) \<Rightarrow> json \<Rightarrow> string \<Rightarrow> bool" where
  "absent_or P x k = (case field x k of None \<Rightarrow> True | Some v \<Rightarrow> P v)"

definition has_object_id :: "json \<Rightarrow> bool" where
  "has_object_id x = (case field x ''objectId'' of None \<Rightarrow> False | Some v \<Rightarrow> hashable v)"

definition location_ok :: "json \<Rightarrow> bool" where
  "location_ok p = absent_or is_dict p ''location''"

definition position_ok :: "json \<Rightarrow> bool" where
  "position_ok x = absent_or location_ok x ''position''"

definition telemetry_record_ok :: "json \<Rightarrow> bool" where
  "telemetry_record_ok t = (has_object_id t \<and> position_ok t)"

definition object_record_ok :: "json \<Rightarrow> bool" where
  "object_record_ok obj =
     (has_object_id obj \<and> position_ok obj \<and> absent_or is_str obj ''licensePlate''
      \<and> absent_or is_dict obj ''locationDescription'' \<and> absent_or divisible obj ''odometer'')"

fun all_records :: "(json \<Rightarrow> bool) \<Rightarrow> json \<Rightarrow> bool" where
  "all_records P (JList xs) = list_all P xs"
| "all_records P _ = False"

definition capture_ok :: "intercepted_data \<Rightarrow> bool" where
  "capture_ok d =
     (if truthy (captured (objects d))
      then all_records object_record_ok (captured (objects d))
           \<and> all_records telemetry_record_ok (captured (telemetry d))
      else True)"

text \<open>Readings of a position record: the two filters as predicates, and the records on
  which the comparison \<^verbatim>\<open>p["speed"] > 0\<close> is defined whenever it is reached.\<close>

fun is_number :: "json \<Rightarrow> bool" where
  "is_number (JInt n) = True"
| "is_number (JFloat r) = True"
| "is_number (JBool b) = True"
| "is_number _ = False"

definition speed_comparable :: "PositionRecord \<Rightarrow> bool" where
  "speed_comparable p = (truthy (stand_still p) \<longrightarrow> is_number (speed p))"

definition is_moving :: "PositionRecord \<Rightarrow> bool" where
  "is_moving p = (\<not> truthy (stand_still p) \<or> 0 < number_value (speed p))"


text \<open>A request is routed to \<open>p\<close> when its target is not \<^verbatim>\<open>/health\<close>, it passes
  \<open>check_auth\<close> and its parsed path is \<open>p\<close>. \<open>bearer_token\<close> is what follows
  \<^verbatim>\<open>Bearer\<close> in the header; a query parameter is supplied when its first value is not
  empty.\<close>

definition routed :: "env \<Rightarrow> request \<Rightarrow> string \<Rightarrow> bool" where
  "routed e req p =
     (path req \<noteq> ''/health'' \<and> check_auth e req = Inr True
      \<and> (case urlparse e (path req) of Inl x \<Rightarrow> False | Inr parsed \<Rightarrow> url_path parsed = p))"

definition bearer_token :: "request \<Rightarrow> string option" where
  "bearer_token req =
     (case authorization req of
        None \<Rightarrow> None
      | Some a \<Rightarrow> if prefix ''Bearer '' a then Some (drop 7 a) else None)"

definition supplied :: "(string \<rightharpoonup> string list) \<Rightarrow> string \<Rightarrow> string option" where
  "supplied params k =
     (case params k of
        None \<Rightarrow> None
      | Some [] \<Rightarrow> None
      | Some (v # vs) \<Rightarrow> if v = [] then None else Some v)"

section \<open>Example data\<close>

text \<open>The captures the closed theorems below are evaluated on; the first is the
  end-to-end scenario of the specification.\<close>

definition scenario_object :: json where
  "scenario_object =
     JObj [(''objectId'', JStr ''A1''), (''licensePlate'', JStr '' AB-123 ''),
           (''odometer'', JInt 15050)]"

definition scenario_telemetry :: json where
  "scenario_telemetry =
     JObj [(''objectId'', JStr ''A1''), (''speed'', JInt 42), (''standStill'', JBool False)]"

definition scenario_capture :: intercepted_data where
  "scenario_capture =
     \<lparr> objects = Some (JList [scenario_object]), telemetry = Some (JList [scenario_telemetry]) \<rparr>"

definition scenario_record :: PositionRecord where
  "scenario_record =
     \<lparr> object_id = JStr ''A1'', number = JStr [], name = JStr [], license_plate = ''AB-123'',
       vtype = JStr [], latitude = JNull, longitude = JNull, address = JStr [],
       speed = JInt 42, ignition = JStr ''UNKNOWN'', stand_still = JBool False,
       last_gps_time = JStr [], odometer_km = 301 / 2 \<rparr>"

definition located_object :: json where
  "located_object =
     JObj [(''objectId'', JStr ''B2''),
           (''position'', JObj [(''latitude'', JInt 1), (''longitude'', JInt 2)]),
           (''locationDescription'', JObj [(''address'', JStr ''Depot'')])]"

definition located_telemetry :: json where
  "located_telemetry =
     JObj [(''objectId'', JStr ''B2''),
           (''position'', JObj [(''latitude'', JInt 48), (''longitude'', JInt 7),
              (''location'', JObj [(''address'', JStr ''Quai 3'')])])]"

definition located_capture :: intercepted_data where
  "located_capture =
     \<lparr> objects = Some (JList [located_object]), telemetry = Some (JList [located_telemetry]) \<rparr>"

definition located_record :: PositionRecord where
  "located_record =
     \<lparr> object_id = JStr ''B2'', number = JStr [], name = JStr [], license_plate = [],
       vtype = JStr [], latitude = JInt 48, longitude = JInt 7, address = JStr ''Quai 3'',
       speed = JInt 0, ignition = JStr ''UNKNOWN'', stand_still = JBool False,
       last_gps_time = JStr [], odometer_km = 0 \<rparr>"

definition described_object :: json where
  "described_object =
     JObj [(''objectId'', JStr ''A1''),
           (''locationDescription'', JObj [(''address'', JStr ''Main St'')])]"

definition described_capture :: intercepted_data where
  "described_capture =
     \<lparr> objects = Some (JList [described_object]),
       telemetry = Some (JList [JObj [(''objectId'', JStr ''A1''), (''speed'', JInt 42)]]) \<rparr>"

text \<open>The same capture with a \<^verbatim>\<open>lastGpsTime\<close> on the object.\<close>

definition stamped_capture :: intercepted_data where
  "stamped_capture =
     \<lparr> objects = Some (JList [JObj [(''objectId'', JStr ''A1''),
                 (''locationDescription'', JObj [(''address'', JStr ''Main St'')]),
                 (''lastGpsTime'', JStr ''2024-05-01T10:00:00'')]]),
       telemetry = Some (JList [JObj [(''objectId'', JStr ''A1''), (''speed'', JInt 42)]]) \<rparr>"







definition twin_capture :: intercepted_data where
  "twin_capture =
     \<lparr> objects = Some (JList [JObj [(''objectId'', JStr ''A1''), (''name'', JStr ''truck'')],
                              JObj [(''objectId'', JStr ''A1''), (''name'', JStr ''van'')]]),
       telemetry = Some (JList []) \<rparr>"

text \<open>The record of an object \<^verbatim>\<open>A1\<close> named \<open>n\<close> with every other entry at its default.\<close>

definition plain_record :: "string \<Rightarrow> PositionRecord" where
  "plain_record n =
     \<lparr> object_id = JStr ''A1'', number = JStr [], name = JStr n, license_plate = [],
       vtype = JStr [], latitude = JNull, longitude = JNull, address = JStr [],
       speed = JInt 0, ignition = JStr ''UNKNOWN'', stand_still = JBool False,
       last_gps_time = JStr [], odometer_km = 0 \<rparr>"

text \<open>An environment for the closed theorems about the handler: the key is
  \<^verbatim>\<open>secret\<close>; \<open>split_query\<close> cuts a target at its first question mark, which is what
  \<^verbatim>\<open>urlparse\<close> does on the targets used here; \<open>query_table\<close> lists what \<^verbatim>\<open>parse_qs\<close>
  returns on the queries used here; \<open>ascii_upper\<close> is \<^verbatim>\<open>str.upper\<close> on ASCII; \<open>round_tenths\<close>
  rounds to one decimal.\<close>

definition split_query :: "string \<Rightarrow> exc + parsed_url" where
  "split_query s =
     Inr \<lparr> url_path = takeWhile (\<lambda>c. c \<noteq> CHR ''?'') s,
           url_query = drop 1 (dropWhile (\<lambda>c. c \<noteq> CHR ''?'') s) \<rparr>"

definition query_table :: "string \<Rightarrow> (string \<rightharpoonup> string list)" where
  "query_table q =
     (if q = ''api_key=secret'' then [''api_key'' \<mapsto> [''secret'']]
      else if q = ''plate=ab&number=7'' then [''plate'' \<mapsto> [''ab''], ''number'' \<mapsto> [''7'']]
      else Map.empty)"

definition ascii_upper :: "string \<Rightarrow> string" where
  "ascii_upper s =
     map (\<lambda>c. if 97 \<le> (of_char c :: nat) \<and> (of_char c :: nat) \<le> 122
              then char_of (of_char c - 32 :: nat) else c) s"

definition round_tenths :: "rat \<Rightarrow> rat" where
  "round_tenths a = of_int \<lfloor>a * 10 + 1 / 2\<rfloor> / 10"

definition example_env :: env where
  "example_env =
     \<lparr> API_KEY = ''secret'', urlparse = split_query, parse_qs = query_table,
       round1 = round_tenths, upper = ascii_upper \<rparr>"

definition parked_record :: PositionRecord where
  "parked_record =
     \<lparr> object_id = JStr ''C3'', number = JStr ''7'', name = JStr ''van'', license_plate = ''XY-9'',
       vtype = JStr [], latitude = JNull, longitude = JNull, address = JStr [],
       speed = JInt 0, ignition = JStr ''OFF'', stand_still = JBool True,
       last_gps_time = JStr [], odometer_km = 12 \<rparr>"

definition fleet_cache :: DataCache where
  "fleet_cache = update [scenario_record, parked_record] 1000000 DataCache_init"



definition request_with_key :: "string \<Rightarrow> request" where
  "request_with_key p = \<lparr> path = p, authorization = Some ''Bearer secret'' \<rparr>"



definition query_request :: request where
  "query_request = \<lparr> path = ''/positions?api_key=secret'', authorization = None \<rparr>"

definition query_url :: parsed_url where
  "query_url = \<lparr> url_path = ''/positions'', url_query = ''api_key=secret'' \<rparr>"

definition vehicle_request :: request where
  "vehicle_request = request_with_key ''/positions/vehicle?plate=ab&number=7''"

definition vehicle_url :: parsed_url where
  "vehicle_url = \<lparr> url_path = ''/positions/vehicle'', url_query = ''plate=ab&number=7'' \<rparr>"

definition bare_vehicle_request :: request where
  "bare_vehicle_request = request_with_key ''/positions/vehicle''"

definition bare_vehicle_url :: parsed_url where
  "bare_vehicle_url = \<lparr> url_path = ''/positions/vehicle'', url_query = [] \<rparr>"

section \<open>Properties of get_positions\<close>

text \<open>Sequencing, lookups and the telemetry map.\<close>

lemma bindE_Inr [simp]: "bindE (Inr x) f = f x"
  by (simp add: bindE_def)

lemma bindE_Inl [simp]: "bindE (Inl e) f = Inl e"
  by (simp add: bindE_def)

lemma bindE_eq_Inr: "bindE m f = Inr y \<longleftrightarrow> (\<exists>x. m = Inr x \<and> f x = Inr y)"
  by (cases m) simp_all

lemma py_get_dict: "is_dict x \<Longrightarrow> py_get x k d = Inr (field_or x k d)"
  by (cases x) (simp_all add: field_or_def)

lemma object_key_dict: "object_key x = Inr k \<Longrightarrow> is_dict x"
  by (cases x) (simp_all add: object_key_def)

lemma object_key_field:
  "object_key x = Inr k \<longleftrightarrow> (\<exists>v. field x ''objectId'' = Some v \<and> py_hash v = Inr k)"
  by (cases x) (auto simp: object_key_def bindE_eq_Inr split: option.splits)

lemma find_append_case:
  "find P (xs @ ys) = (case find P xs of None \<Rightarrow> find P ys | Some x \<Rightarrow> Some x)"
  by (induction xs) auto

lemma build_telem_map_lookup:
  "build_telem_map ts m = Inr tm \<Longrightarrow>
   tm k = (case matching_telemetry ts k of None \<Rightarrow> m k | Some t \<Rightarrow> Some t)"
proof (induction ts arbitrary: m)
  case Nil
  then show ?case by (simp add: matching_telemetry_def)
next
  case (Cons t ts)
  from Cons.prems obtain k' where k': "object_key t = Inr k'"
    and rest: "build_telem_map ts (m(k' \<mapsto> t)) = Inr tm"
    by (auto simp: bindE_eq_Inr)
  from Cons.IH [OF rest] show ?case
    using k' by (auto simp: matching_telemetry_def find_append_case split: option.splits)
qed

lemma build_telem_map_total:
  "(\<And>t. t \<in> set ts \<Longrightarrow> \<exists>k. object_key t = Inr k) \<Longrightarrow> \<exists>tm. build_telem_map ts m = Inr tm"
proof (induction ts arbitrary: m)
  case Nil
  then show ?case by simp
next
  case (Cons t ts)
  then obtain k where "object_key t = Inr k" by auto
  with Cons show ?case by simp
qed

lemma matching_telemetry_dict: "matching_telemetry ts k = Some t \<Longrightarrow> is_dict t"
  by (auto simp: matching_telemetry_def find_Some_iff intro: object_key_dict)

lemma positions_loop_Inr:
  "positions_loop tm os acc = Inr recs \<longleftrightarrow>
   (\<exists>rs. recs = acc @ rs \<and> list_all2 (\<lambda>obj r. position_record tm obj = Inr r) os rs)"
proof (induction os arbitrary: acc)
  case Nil
  then show ?case by auto
next
  case (Cons obj os)
  show ?case
    by (auto simp: bindE_eq_Inr Cons.IH list_all2_Cons1)
qed

text \<open>The record of one object, once its key and its telemetry record are known: only
  the plate, the address and the odometer can still raise.\<close>

lemma resolve_pos_dict:
  "is_dict telem \<Longrightarrow> is_dict obj \<Longrightarrow>
   resolve_pos telem obj = Inr (py_or (chosen_position telem obj) (JObj []))"
  by (simp add: resolve_pos_def py_get_dict chosen_position_def field_or_def split: option.splits)

lemma pos_field_eq:
  "pos_field pos k = Inr (if is_dict pos then field_or pos k JNull else JNull)"
  by (simp add: pos_field_def py_get_dict)

lemma lookup_telem_eq:
  "object_key obj = Inr k \<Longrightarrow> lookup_telem tm obj = Inr (telem_of (tm k))"
  by (simp add: lookup_telem_def telem_of_def)

lemma position_record_eq:
  assumes key: "object_key obj = Inr k"
    and telem: "is_dict (telem_of (tm k))"
  shows "position_record tm obj =
     bindE (py_strip (field_or obj ''licensePlate'' (JStr []))) (\<lambda>lp.
     bindE (resolve_address (py_or (chosen_position (telem_of (tm k)) obj) (JObj [])) obj) (\<lambda>a.
     bindE (truediv100 (field_or obj ''odometer'' (JInt 0))) (\<lambda>km.
     Inr \<lparr> object_id = field_or obj ''objectId'' JNull,
           number = field_or obj ''number'' (JStr []),
           name = field_or obj ''name'' (JStr []),
           license_plate = lp,
           vtype = field_or obj ''type'' (JStr []),
           latitude = (let pos = py_or (chosen_position (telem_of (tm k)) obj) (JObj [])
                       in if is_dict pos then field_or pos ''latitude'' JNull else JNull),
           longitude = (let pos = py_or (chosen_position (telem_of (tm k)) obj) (JObj [])
                       in if is_dict pos then field_or pos ''longitude'' JNull else JNull),
           address = a,
           speed = field_or (telem_of (tm k)) ''speed'' (JInt 0),
           ignition = field_or (telem_of (tm k)) ''ignition'' (JStr ''UNKNOWN''),
           stand_still = field_or (telem_of (tm k)) ''standStill'' (JBool False),
           last_gps_time =
             py_or (let pos = py_or (chosen_position (telem_of (tm k)) obj) (JObj [])
                    in if is_dict pos then field_or pos ''time'' JNull else JNull)
                   (field_or obj ''lastGpsTime'' (JStr [])),
           odometer_km = km \<rparr>)))"
proof -
  have obj: "is_dict obj" using key by (rule object_key_dict)
  show ?thesis
    unfolding position_record_def
    by (simp add: lookup_telem_eq [OF key] resolve_pos_dict [OF telem obj]
        py_get_dict [OF obj] py_get_dict [OF telem] pos_field_eq Let_def)
qed

lemma position_record_key:
  "position_record tm obj = Inr r \<Longrightarrow> \<exists>k. object_key obj = Inr k"
  by (cases "object_key obj") (simp_all add: position_record_def lookup_telem_def)

text \<open>What the well-formedness conditions give.\<close>

lemma py_hash_hashable: "hashable v \<Longrightarrow> \<exists>k. py_hash v = Inr k"
  by (cases v) simp_all

lemma has_object_id_key: "has_object_id x \<Longrightarrow> \<exists>k. object_key x = Inr k"
  by (auto simp: has_object_id_def object_key_field split: option.splits dest: py_hash_hashable)

lemma truediv100_divisible: "divisible v \<Longrightarrow> truediv100 v = Inr (number_value v / 100)"
  by (cases v) simp_all

lemma py_strip_str: "is_str v \<Longrightarrow> \<exists>s. py_strip v = Inr s"
  by (cases v) simp_all

lemma absent_or_field_or: "absent_or P x k \<Longrightarrow> P d \<Longrightarrow> P (field_or x k d)"
  by (simp add: absent_or_def field_or_def split: option.splits)

lemma resolve_address_dict:
  "is_dict pos \<Longrightarrow> location_ok pos \<Longrightarrow>
   resolve_address pos obj =
     Inr (field_or (field_or pos ''location'' (JObj [])) ''address'' (JStr []))"
  by (simp add: resolve_address_def location_ok_def py_get_dict absent_or_field_or)

lemma resolve_address_other:
  "\<not> is_dict pos \<Longrightarrow> is_dict obj \<Longrightarrow> absent_or is_dict obj ''locationDescription'' \<Longrightarrow>
   resolve_address pos obj =
     Inr (field_or (field_or obj ''locationDescription'' (JObj [])) ''address'' (JStr []))"
  by (simp add: resolve_address_def py_get_dict absent_or_field_or)

lemma py_get_iff: "py_get x k d = Inr v \<longleftrightarrow> is_dict x \<and> v = field_or x k d"
  by (cases x) (auto simp: field_or_def)

lemma resolve_address_Inr_dict:
  "is_dict pos \<Longrightarrow> resolve_address pos obj = Inr a \<Longrightarrow>
   a = field_or (field_or pos ''location'' (JObj [])) ''address'' (JStr [])"
  by (auto simp: resolve_address_def bindE_eq_Inr py_get_iff)

lemma resolve_address_Inr_other:
  "\<not> is_dict pos \<Longrightarrow> is_dict obj \<Longrightarrow> resolve_address pos obj = Inr a \<Longrightarrow>
   a = field_or (field_or obj ''locationDescription'' (JObj [])) ''address'' (JStr [])"
  by (auto simp: resolve_address_def bindE_eq_Inr py_get_iff)

lemma location_ok_empty: "location_ok (JObj [])"
  by (simp add: location_ok_def absent_or_def)

lemma chosen_position_ok:
  "position_ok telem \<Longrightarrow> position_ok obj \<Longrightarrow> location_ok (chosen_position telem obj)"
  by (auto simp: chosen_position_def position_ok_def absent_or_def location_ok_empty
      split: option.splits)

lemma telem_of_dict: "(\<And>t. mt = Some t \<Longrightarrow> is_dict t) \<Longrightarrow> is_dict (telem_of mt)"
  by (cases mt) (simp_all add: telem_of_def)

text \<open>\<open>get_positions\<close> on captures that are lists, and why other true captures
  raise: their elements are no dicts.\<close>

lemma captured_cases: "truthy (captured v) \<or> captured v = JList []"
  by (simp add: captured_def py_or_def)

lemma get_positions_lists:
  assumes "captured (objects d) = JList os" and "captured (telemetry d) = JList ts"
  shows "get_positions d =
    (if os = [] then Inr []
     else bindE (build_telem_map ts Map.empty) (\<lambda>tm. positions_loop tm os []))"
  using assms by (simp add: get_positions_def Let_def)

lemma positions_loop_not_record:
  "os \<noteq> [] \<Longrightarrow> (\<And>obj. obj \<in> set os \<Longrightarrow> \<not> is_dict obj) \<Longrightarrow>
   positions_loop tm os acc \<noteq> Inr recs"
  by (cases os) (auto simp: bindE_eq_Inr dest!: position_record_key object_key_dict)

lemma build_telem_map_not_record:
  "ts \<noteq> [] \<Longrightarrow> (\<And>t. t \<in> set ts \<Longrightarrow> \<not> is_dict t) \<Longrightarrow> build_telem_map ts m \<noteq> Inr tm"
  by (cases ts) (auto simp: bindE_eq_Inr dest!: object_key_dict)

lemma py_iter_list:
  assumes "truthy v" and "py_iter v = Inr xs" and "\<forall>x. v \<noteq> JList x"
  shows "xs \<noteq> [] \<and> (\<forall>x \<in> set xs. \<not> is_dict x)"
  using assms by (cases v) auto

lemma get_positions_Inr:
  assumes ret: "get_positions d = Inr recs" and tr: "truthy (captured (objects d))"
  shows "\<exists>os ts tm. captured (objects d) = JList os \<and> captured (telemetry d) = JList ts
           \<and> build_telem_map ts Map.empty = Inr tm
           \<and> list_all2 (\<lambda>obj r. position_record tm obj = Inr r) os recs"
proof -
  from ret tr obtain ts tm os where
    its: "py_iter (captured (telemetry d)) = Inr ts"
    and tm: "build_telem_map ts Map.empty = Inr tm"
    and ios: "py_iter (captured (objects d)) = Inr os"
    and loop: "positions_loop tm os [] = Inr recs"
    by (auto simp: get_positions_def Let_def bindE_eq_Inr)
  have "\<exists>x. captured (objects d) = JList x"
  proof (rule ccontr)
    assume "\<not> ?thesis"
    with py_iter_list [OF tr ios] have "os \<noteq> []" "\<And>obj. obj \<in> set os \<Longrightarrow> \<not> is_dict obj"
      by auto
    from positions_loop_not_record [OF this] loop show False by blast
  qed
  moreover have "\<exists>x. captured (telemetry d) = JList x"
  proof (rule ccontr)
    assume no: "\<not> ?thesis"
    with captured_cases [of "telemetry d"] have "truthy (captured (telemetry d))" by auto
    from py_iter_list [OF this its] no
    have "ts \<noteq> []" "\<And>t. t \<in> set ts \<Longrightarrow> \<not> is_dict t" by auto
    from build_telem_map_not_record [OF this] tm show False by blast
  qed
  ultimately show ?thesis
    using its tm ios loop by (auto simp: positions_loop_Inr)
qed

text \<open>Every object of a well-formed capture gets its record; the records of a
  returned list are those of the objects, in order.\<close>

lemma truediv100_Inr: "truediv100 v = Inr km \<Longrightarrow> km = number_value v / 100"
  by (cases v) (auto split: if_splits)


lemma list_all2_exists: "(\<And>x. x \<in> set xs \<Longrightarrow> \<exists>y. P x y) \<Longrightarrow> \<exists>ys. list_all2 P xs ys"
proof (induction xs)
  case Nil
  then show ?case by simp
next
  case (Cons x xs)
  then obtain y ys where "P x y" "list_all2 P xs ys" by (metis list.set_intros)
  then have "list_all2 P (x # xs) (y # ys)" by simp
  then show ?case ..
qed

lemma telem_map_matching:
  "build_telem_map ts Map.empty = Inr tm \<Longrightarrow> tm = matching_telemetry ts"
  by (rule ext) (simp add: build_telem_map_lookup split: option.splits)

lemma find_member: "find P xs = Some x \<Longrightarrow> x \<in> set xs \<and> P x"
  by (induction xs) (auto split: if_splits)

lemma matching_telemetry_member: "matching_telemetry ts k = Some t \<Longrightarrow> t \<in> set ts"
  using find_member [of _ "rev ts" t] by (auto simp: matching_telemetry_def)

lemma matching_dict: "is_dict (telem_of (matching_telemetry ts k))"
  by (rule telem_of_dict) (rule matching_telemetry_dict)

lemma matching_position_ok:
  "list_all telemetry_record_ok ts \<Longrightarrow> position_ok (telem_of (matching_telemetry ts k))"
proof (cases "matching_telemetry ts k")
  case None
  then show ?thesis by (simp add: telem_of_def position_ok_def absent_or_def)
next
  case (Some t)
  assume "list_all telemetry_record_ok ts"
  with matching_telemetry_member [OF Some] have "telemetry_record_ok t"
    by (simp add: list_all_iff)
  with Some show ?thesis by (simp add: telem_of_def telemetry_record_ok_def)
qed

lemma resolve_address_ok:
  assumes "is_dict obj" and "absent_or is_dict obj ''locationDescription''"
    and "location_ok p"
  shows "\<exists>a. resolve_address (py_or p (JObj [])) obj = Inr a"
proof (cases "is_dict (py_or p (JObj []))")
  case True
  have "location_ok (py_or p (JObj []))"
    using assms(3) by (simp add: py_or_def location_ok_empty)
  from resolve_address_dict [OF True this] show ?thesis by blast
next
  case False
  from resolve_address_other [OF False assms(1,2)] show ?thesis by blast
qed

lemma position_record_total:
  assumes ok: "object_record_ok obj" and ts: "list_all telemetry_record_ok ts"
  shows "\<exists>r. position_record (matching_telemetry ts) obj = Inr r"
proof -
  from ok obtain k where key: "object_key obj = Inr k"
    by (auto simp: object_record_ok_def dest: has_object_id_key)
  have obj: "is_dict obj" using key by (rule object_key_dict)
  let ?telem = "telem_of (matching_telemetry ts k)"
  from ok have "is_str (field_or obj ''licensePlate'' (JStr []))"
    by (simp add: object_record_ok_def absent_or_field_or)
  then obtain lp where lp: "py_strip (field_or obj ''licensePlate'' (JStr [])) = Inr lp"
    by (auto dest: py_strip_str)
  from ok have "divisible (field_or obj ''odometer'' (JInt 0))"
    by (simp add: object_record_ok_def absent_or_field_or float_limit_def)
  then obtain km where km: "truediv100 (field_or obj ''odometer'' (JInt 0)) = Inr km"
    by (auto dest: truediv100_divisible)
  from ok have "position_ok obj" and ld: "absent_or is_dict obj ''locationDescription''"
    by (simp_all add: object_record_ok_def)
  with matching_position_ok [OF ts, of k]
  have "location_ok (chosen_position ?telem obj)" by (simp add: chosen_position_ok)
  from resolve_address_ok [OF obj ld this]
  obtain a where a: "resolve_address (py_or (chosen_position ?telem obj) (JObj [])) obj = Inr a"
    by blast
  show ?thesis
    by (simp add: position_record_eq [OF key matching_dict] lp km a)
qed

lemma get_positions_lists_total:
  assumes os: "captured (objects d) = JList os" and ts: "captured (telemetry d) = JList ts"
    and oks: "list_all object_record_ok os" "list_all telemetry_record_ok ts"
  shows "\<exists>recs. get_positions d = Inr recs"
proof -
  have "\<And>t. t \<in> set ts \<Longrightarrow> \<exists>k. object_key t = Inr k"
    using oks(2) by (auto simp: list_all_iff telemetry_record_ok_def dest: has_object_id_key)
  from build_telem_map_total [OF this]
  obtain tm where tm: "build_telem_map ts Map.empty = Inr tm" by blast
  have "\<And>obj. obj \<in> set os \<Longrightarrow> \<exists>r. position_record (matching_telemetry ts) obj = Inr r"
    using oks by (auto simp: list_all_iff intro: position_record_total)
  from list_all2_exists [of os "\<lambda>obj r. position_record (matching_telemetry ts) obj = Inr r", OF this]
  obtain rs where "list_all2 (\<lambda>obj r. position_record (matching_telemetry ts) obj = Inr r) os rs"
    by blast
  then have "positions_loop tm os [] = Inr rs"
    using telem_map_matching [OF tm] by (auto simp: positions_loop_Inr)
  then show ?thesis
    by (simp add: get_positions_lists [OF os ts] tm)
qed

lemma get_positions_nth:
  assumes ret: "get_positions d = Inr recs"
    and os: "captured (objects d) = JList os" and ts: "captured (telemetry d) = JList ts"
  shows "list_all2 (\<lambda>obj r. position_record (matching_telemetry ts) obj = Inr r) os recs"
proof (cases "os = []")
  case True
  with ret show ?thesis by (simp add: get_positions_lists [OF os ts])
next
  case False
  with ret obtain tm where tm: "build_telem_map ts Map.empty = Inr tm"
    and loop: "positions_loop tm os [] = Inr recs"
    by (auto simp: get_positions_lists [OF os ts] bindE_eq_Inr)
  from loop show ?thesis
    using telem_map_matching [OF tm] by (auto simp: positions_loop_Inr)
qed

lemma record_fields:
  assumes rec: "position_record (matching_telemetry ts) obj = Inr r"
    and key: "object_key obj = Inr k"
  shows "object_id r = field_or obj ''objectId'' JNull"
    and "latitude r = (let pos = py_or (chosen_position (telem_of (matching_telemetry ts k)) obj) (JObj [])
                       in if is_dict pos then field_or pos ''latitude'' JNull else JNull)"
    and "longitude r = (let pos = py_or (chosen_position (telem_of (matching_telemetry ts k)) obj) (JObj [])
                       in if is_dict pos then field_or pos ''longitude'' JNull else JNull)"
    and "resolve_address (py_or (chosen_position (telem_of (matching_telemetry ts k)) obj) (JObj [])) obj
           = Inr (address r)"
    and "speed r = field_or (telem_of (matching_telemetry ts k)) ''speed'' (JInt 0)"
    and "ignition r = field_or (telem_of (matching_telemetry ts k)) ''ignition'' (JStr ''UNKNOWN'')"
    and "stand_still r = field_or (telem_of (matching_telemetry ts k)) ''standStill'' (JBool False)"
    and "truediv100 (field_or obj ''odometer'' (JInt 0)) = Inr (odometer_km r)"
  using rec unfolding position_record_eq [OF key matching_dict]
  by (auto simp: bindE_eq_Inr)

lemma field_or_objectId:
  "object_key obj = Inr k \<Longrightarrow> field obj ''objectId'' = Some (field_or obj ''objectId'' JNull)"
  by (auto simp: object_key_field field_or_def)

text \<open>
  C9. With an objects capture that is missing, \<^verbatim>\<open>None\<close>, the empty list or any other
  falsy value, \<open>get_positions\<close> returns the empty list, whatever the telemetry
  capture holds (it is not even looked at).
\<close>

theorem get_positions_no_objects:
  "(\<not> truthy (captured (objects d)) \<longrightarrow> get_positions d = Inr [])
   \<and> get_positions \<lparr>objects = None, telemetry = t\<rparr> = Inr []
   \<and> get_positions \<lparr>objects = Some JNull, telemetry = t\<rparr> = Inr []
   \<and> get_positions \<lparr>objects = Some (JList []), telemetry = t\<rparr> = Inr []"
  by (simp add: get_positions_def Let_def captured_def py_or_def)

text \<open>The theorem at a \<^verbatim>\<open>None\<close> objects capture with a telemetry capture that would
  raise if it were read.\<close>

theorem get_positions_no_objects_witness:
  "\<not> truthy (captured (objects \<lparr>objects = Some JNull, telemetry = Some (JList [JInt 7])\<rparr>))
   \<and> get_positions \<lparr>objects = Some JNull, telemetry = Some (JList [JInt 7])\<rparr> = Inr []"
  using get_positions_no_objects
    [of "\<lparr>objects = Some JNull, telemetry = Some (JList [JInt 7])\<rparr>"]
  by (simp add: captured_def py_or_def)


text \<open>
  What the code computes for the position entries, stated for every object of a
  capture on which \<open>get_positions\<close> returns. The matching telemetry record is the last
  telemetry record with an equal \<^verbatim>\<open>objectId\<close> (an empty dict when there is none); the
  chosen position is the value under that record's key \<^verbatim>\<open>position\<close> when it has the
  key, else the value under the object's key \<^verbatim>\<open>position\<close>, else \<^verbatim>\<open>{}\<close>. Then:
  \<^item> when the chosen value is falsy, latitude and longitude are \<^verbatim>\<open>None\<close> and the address
    is the empty string;
  \<^item> when it is a non-empty dict, latitude and longitude are its entries (\<^verbatim>\<open>None\<close>
    when missing) and the address is its \<^verbatim>\<open>location.address\<close> (empty when missing);
  \<^item> when it is a true value that is not a dict, latitude and longitude are \<^verbatim>\<open>None\<close> and
    the address is the object's \<^verbatim>\<open>locationDescription.address\<close> (empty when missing).
  In the first case the object's \<^verbatim>\<open>locationDescription\<close> is never read.
\<close>

theorem position_resolution:
  assumes ret: "get_positions d = Inr recs"
    and os: "captured (objects d) = JList os" and ts: "captured (telemetry d) = JList ts"
    and i: "i < length os"
  shows "\<exists>k. object_key (os ! i) = Inr k \<and> i < length recs \<and>
    (let p = chosen_position (telem_of (matching_telemetry ts k)) (os ! i); r = recs ! i in
     if \<not> truthy p
     then latitude r = JNull \<and> longitude r = JNull \<and> address r = JStr []
     else if is_dict p
     then latitude r = field_or p ''latitude'' JNull
          \<and> longitude r = field_or p ''longitude'' JNull
          \<and> address r = field_or (field_or p ''location'' (JObj [])) ''address'' (JStr [])
     else latitude r = JNull \<and> longitude r = JNull
          \<and> address r =
              field_or (field_or (os ! i) ''locationDescription'' (JObj [])) ''address'' (JStr []))"
proof -
  from get_positions_nth [OF ret os ts]
  have all2: "list_all2 (\<lambda>obj r. position_record (matching_telemetry ts) obj = Inr r) os recs" .
  then have len: "i < length recs" using i by (simp add: list_all2_lengthD)
  from list_all2_nthD [OF all2 i]
  have rec: "position_record (matching_telemetry ts) (os ! i) = Inr (recs ! i)" .
  then obtain k where k: "object_key (os ! i) = Inr k"
    by (auto dest: position_record_key)
  have obj: "is_dict (os ! i)" using k by (rule object_key_dict)
  let ?p = "chosen_position (telem_of (matching_telemetry ts k)) (os ! i)"
  let ?r = "recs ! i"
  note lat = record_fields(2) [OF rec k] and lon = record_fields(3) [OF rec k]
    and adr = record_fields(4) [OF rec k]
  have "if \<not> truthy ?p
     then latitude ?r = JNull \<and> longitude ?r = JNull \<and> address ?r = JStr []
     else if is_dict ?p
     then latitude ?r = field_or ?p ''latitude'' JNull
          \<and> longitude ?r = field_or ?p ''longitude'' JNull
          \<and> address ?r = field_or (field_or ?p ''location'' (JObj [])) ''address'' (JStr [])
     else latitude ?r = JNull \<and> longitude ?r = JNull
          \<and> address ?r =
              field_or (field_or (os ! i) ''locationDescription'' (JObj [])) ''address'' (JStr [])"
  proof (cases "truthy ?p")
    case False
    then have pos: "py_or ?p (JObj []) = JObj []" by (simp add: py_or_def)
    from adr have "address ?r = JStr []"
      unfolding pos by (auto dest!: resolve_address_Inr_dict [rotated] simp: field_or_def)
    with False lat lon show ?thesis by (simp add: pos field_or_def)
  next
    case True
    then have pos: "py_or ?p (JObj []) = ?p" by (simp add: py_or_def)
    show ?thesis
    proof (cases "is_dict ?p")
      case dict: True
      from resolve_address_Inr_dict [OF dict adr [unfolded pos]] True dict lat lon
      show ?thesis by (simp add: pos)
    next
      case nodict: False
      from resolve_address_Inr_other [OF nodict obj adr [unfolded pos]] True nodict lat lon
      show ?thesis by (simp add: pos)
    qed
  qed
  with k len show ?thesis by (auto simp: Let_def)
qed

text \<open>The theorem at a capture whose telemetry record carries a position.\<close>

theorem position_resolution_witness:
  "get_positions located_capture = Inr [located_record]
   \<and> captured (objects located_capture) = JList [located_object]
   \<and> captured (telemetry located_capture) = JList [located_telemetry]
   \<and> (0 :: nat) < length [located_object]
   \<and> latitude located_record = JInt 48 \<and> longitude located_record = JInt 7
   \<and> address located_record = JStr ''Quai 3''"
proof -
  have h1: "get_positions located_capture = Inr [located_record]" by code_simp
  have h2: "captured (objects located_capture) = JList [located_object]" by code_simp
  have h3: "captured (telemetry located_capture) = JList [located_telemetry]" by code_simp
  have h4: "(0 :: nat) < length [located_object]" by simp
  have "latitude located_record = JInt 48 \<and> longitude located_record = JInt 7
   \<and> address located_record = JStr ''Quai 3''" by (simp add: located_record_def)
  with h1 h2 h3 h4 position_resolution [OF h1 h2 h3 h4] show ?thesis by simp
qed

text \<open>
  C1 at the input where the code leaves the claim. The telemetry record of
  \<open>described_capture\<close> has no position, the object has a \<^verbatim>\<open>locationDescription\<close> with
  the address \<^verbatim>\<open>Main St\<close> and no position, and the address of the record is the empty
  string: \<^verbatim>\<open>or {}\<close> has made \<^verbatim>\<open>pos\<close> a dict, so the branch that reads
  \<^verbatim>\<open>locationDescription\<close> is not taken. The entry \<^verbatim>\<open>last_gps_time\<close> of the same record
  does fall back to the object's own value (\<open>stamped_capture\<close>).
\<close>

theorem address_without_position:
  "get_positions described_capture =
     Inr [\<lparr> object_id = JStr ''A1'', number = JStr [], name = JStr [], license_plate = [],
            vtype = JStr [], latitude = JNull, longitude = JNull, address = JStr [],
            speed = JInt 42, ignition = JStr ''UNKNOWN'', stand_still = JBool False,
            last_gps_time = JStr [], odometer_km = 0 \<rparr>]
   \<and> field_or (field_or described_object ''locationDescription'' (JObj [])) ''address'' (JStr [])
       = JStr ''Main St''
   \<and> get_positions stamped_capture =
     Inr [\<lparr> object_id = JStr ''A1'', number = JStr [], name = JStr [], license_plate = [],
            vtype = JStr [], latitude = JNull, longitude = JNull, address = JStr [],
            speed = JInt 42, ignition = JStr ''UNKNOWN'', stand_still = JBool False,
            last_gps_time = JStr ''2024-05-01T10:00:00'', odometer_km = 0 \<rparr>]"
  by code_simp




text \<open>
  C3, as the code has it. For an objects capture that is the list \<open>os\<close> and a telemetry
  capture that is the list \<open>ts\<close>: on a well-formed capture (\<open>capture_ok\<close>)
  \<open>get_positions\<close> returns, and whenever it returns, it returns exactly one record per
  record of \<open>os\<close> (one per \<^verbatim>\<open>objectId\<close> when these are distinct), in the order of \<open>os\<close>:
  the \<open>i\<close>-th record has the \<open>i\<close>-th object's \<^verbatim>\<open>objectId\<close>, its \<open>odometer_km\<close> is the
  object's \<^verbatim>\<open>odometer\<close> (0 when missing) divided by 100, and an object without a matching
  telemetry record is kept, with speed 0, ignition \<^verbatim>\<open>UNKNOWN\<close> and stand_still false.
\<close>

theorem one_record_per_object:
  assumes os: "captured (objects d) = JList os" and ts: "captured (telemetry d) = JList ts"
  shows "(capture_ok d \<longrightarrow> (\<exists>recs. get_positions d = Inr recs)) \<and>
    (\<forall>recs. get_positions d = Inr recs \<longrightarrow>
       length recs = length os \<and>
       (\<forall>i<length os.
          field (os ! i) ''objectId'' = Some (object_id (recs ! i)) \<and>
          odometer_km (recs ! i) = number_value (field_or (os ! i) ''odometer'' (JInt 0)) / 100 \<and>
          (\<forall>k. object_key (os ! i) = Inr k \<and> matching_telemetry ts k = None \<longrightarrow>
             speed (recs ! i) = JInt 0 \<and> ignition (recs ! i) = JStr ''UNKNOWN''
             \<and> stand_still (recs ! i) = JBool False)))"
proof (intro conjI allI impI)
  assume ok: "capture_ok d"
  show "\<exists>recs. get_positions d = Inr recs"
  proof (cases "os = []")
    case True
    then have "get_positions d = Inr []" by (simp add: get_positions_lists [OF os ts])
    then show ?thesis ..
  next
    case False
    with ok os ts have "list_all object_record_ok os" and "list_all telemetry_record_ok ts"
      by (simp_all add: capture_ok_def)
    with os ts show ?thesis by (rule get_positions_lists_total)
  qed
next
  fix recs
  assume ret: "get_positions d = Inr recs"
  from get_positions_nth [OF ret os ts]
  have all2: "list_all2 (\<lambda>obj r. position_record (matching_telemetry ts) obj = Inr r) os recs" .
  then show len: "length recs = length os" by (simp add: list_all2_lengthD)
  fix i
  assume i: "i < length os"
  from list_all2_nthD [OF all2 i]
  have rec: "position_record (matching_telemetry ts) (os ! i) = Inr (recs ! i)" .
  then obtain k0 where k0: "object_key (os ! i) = Inr k0"
    by (auto dest: position_record_key)
  show "field (os ! i) ''objectId'' = Some (object_id (recs ! i))"
    by (simp add: record_fields(1) [OF rec k0] field_or_objectId [OF k0])
  show "odometer_km (recs ! i) = number_value (field_or (os ! i) ''odometer'' (JInt 0)) / 100"
    using record_fields(8) [OF rec k0] by (rule truediv100_Inr)
  fix k
  assume "object_key (os ! i) = Inr k \<and> matching_telemetry ts k = None"
  then have k: "object_key (os ! i) = Inr k" and none: "matching_telemetry ts k = None"
    by simp_all
  show "speed (recs ! i) = JInt 0"
    by (simp add: record_fields(5) [OF rec k] none telem_of_def field_or_def)
  show "ignition (recs ! i) = JStr ''UNKNOWN''"
    by (simp add: record_fields(6) [OF rec k] none telem_of_def field_or_def)
  show "stand_still (recs ! i) = JBool False"
    by (simp add: record_fields(7) [OF rec k] none telem_of_def field_or_def)
qed

text \<open>The theorem at the end-to-end scenario of the specification.\<close>

theorem one_record_per_object_witness:
  "captured (objects scenario_capture) = JList [scenario_object]
   \<and> captured (telemetry scenario_capture) = JList [scenario_telemetry]
   \<and> capture_ok scenario_capture
   \<and> get_positions scenario_capture = Inr [scenario_record]
   \<and> odometer_km scenario_record = 15050 / 100"
proof -
  have h1: "captured (objects scenario_capture) = JList [scenario_object]" by code_simp
  have h2: "captured (telemetry scenario_capture) = JList [scenario_telemetry]" by code_simp
  have h3: "capture_ok scenario_capture" by code_simp
  have h4: "get_positions scenario_capture = Inr [scenario_record]" by code_simp
  from one_record_per_object [OF h1 h2] h4
  have "odometer_km ([scenario_record] ! 0)
          = number_value (field_or ([scenario_object] ! 0) ''odometer'' (JInt 0)) / 100"
    by simp
  then have "odometer_km scenario_record = 15050 / 100"
    by (simp add: scenario_object_def field_or_def)
  with h1 h2 h3 h4 show ?thesis by simp
qed

text \<open>
  The claim as stated fails: two objects with the same \<^verbatim>\<open>objectId\<close> give two records
  with that id, not one.
\<close>

theorem one_record_per_object_counterexample:
  "get_positions twin_capture = Inr [plain_record ''truck'', plain_record ''van'']
   \<and> map object_id [plain_record ''truck'', plain_record ''van''] = [JStr ''A1'', JStr ''A1'']"
  by code_simp

section \<open>Properties of DataCache\<close>

text \<open>
  C6. \<open>update\<close> clears the error, adds exactly 1 to \<open>refresh_count\<close>, sets
  \<open>last_update\<close> to the clock and replaces the positions, leaving \<open>login_count\<close> alone;
  \<open>set_error\<close> sets the error and changes neither the positions nor \<open>last_update\<close>
  nor either counter.
\<close>

theorem cache_update_set_error:
  "error (update ps now c) = None
   \<and> refresh_count (update ps now c) = refresh_count c + 1
   \<and> last_update (update ps now c) = Some now
   \<and> positions (update ps now c) = ps
   \<and> login_count (update ps now c) = login_count c
   \<and> error (set_error x c) = Some x
   \<and> positions (set_error x c) = positions c
   \<and> last_update (set_error x c) = last_update c
   \<and> refresh_count (set_error x c) = refresh_count c
   \<and> login_count (set_error x c) = login_count c"
  by (simp add: update_def set_error_def)

text \<open>What \<open>get\<close> reports as the age of the cache.\<close>

lemma get_cache_age:
  "v_cache_age_seconds (get r now c) =
     (case last_update c of
        None \<Rightarrow> None
      | Some t \<Rightarrow> if now = t then None else Some (r (of_int (now - t) / 1000000)))"
  by (simp add: get_def Let_def split: option.splits)

text \<open>
  C5 at the input where the code leaves the claim: a \<open>get\<close> whose clock reads the very
  time stamp of the last update reports a \<open>last_update\<close> and no age, because
  \<^verbatim>\<open>round(age, 1) if age else None\<close> takes the age \<open>0.0\<close> for a missing one.
\<close>

theorem cache_age_zero:
  "v_last_update (get r t (update ps t c)) = Some t
   \<and> v_cache_age_seconds (get r t (update ps t c)) = None"
  by (simp add: get_def update_def Let_def)

section \<open>Properties of APIHandler\<close>

text \<open>The health test of both handlers: a time stamp is there and the error is \<^verbatim>\<open>None\<close>
  or the empty string.\<close>

lemma is_healthy_stats:
  "is_healthy (stats c) \<longleftrightarrow> last_update c \<noteq> None \<and> (error c = None \<or> error c = Some [])"
  by (cases "error c") (simp_all add: is_healthy_def stats_def truthy_str_def)

text \<open>
  C4 at the input where the code leaves the claim. \<^verbatim>\<open>GET /health\<close> computes the status
  string but sends it with the default status of \<open>send_json\<close>: the response is 200
  whatever the cache holds, for instance on the initial cache, where the body says
  \<^verbatim>\<open>unhealthy\<close> and \<^verbatim>\<open>HEAD /health\<close> answers 503.
\<close>

theorem health_get_status:
  "do_GET e now \<lparr> path = ''/health'', authorization = a \<rparr> c =
     (Inr \<lparr> status = 200,
            body = HealthBody (if is_healthy (stats c) then ''healthy'' else ''unhealthy'')
                     (stats c) \<rparr>, c)
   \<and> do_GET e now \<lparr> path = ''/health'', authorization = a \<rparr> DataCache_init =
     (Inr \<lparr> status = 200, body = HealthBody ''unhealthy'' (stats DataCache_init) \<rparr>,
      DataCache_init)
   \<and> do_HEAD \<lparr> path = ''/health'', authorization = a \<rparr> DataCache_init =
     (\<lparr> status = 503, body = NoBody \<rparr>, DataCache_init)"
  by (simp add: do_GET_def do_HEAD_def Let_def send_json_def is_healthy_def stats_def
      DataCache_init_def)

text \<open>Filters and routes.\<close>

lemma py_gt0_number: "is_number v \<Longrightarrow> py_gt0 v = Inr (0 < number_value v)"
  by (cases v) simp_all


lemma moving_cond_eq: "speed_comparable p \<Longrightarrow> moving_cond p = Inr (is_moving p)"
  by (simp add: speed_comparable_def moving_cond_def is_moving_def py_gt0_number)



lemma comprehension_raises:
  "cond p = Inl x \<Longrightarrow> (\<And>q. q \<in> set qs \<Longrightarrow> \<exists>b. cond q = Inr b) \<Longrightarrow>
   comprehension cond (qs @ p # ps) = Inl x"
proof (induction qs)
  case Nil
  then show ?case by simp
next
  case (Cons q qs)
  then obtain b where "cond q = Inr b" by auto
  with Cons show ?case by simp
qed

lemma moving_cond_raises: "\<not> speed_comparable p \<Longrightarrow> moving_cond p = Inl TypeError"
  by (cases "speed p") (simp_all add: speed_comparable_def moving_cond_def)



lemma get_positions_view [simp]:
  "v_positions (get r now c) = positions c" "v_count (get r now c) = length (positions c)"
  by (simp_all add: get_def Let_def)

lemma with_positions_simps [simp]:
  "v_positions (with_positions ps data) = ps" "v_count (with_positions ps data) = length ps"
  by (simp_all add: with_positions_def)

lemma with_positions_get: "with_positions (positions c) (get r now c) = get r now c"
  by (simp add: with_positions_def get_def Let_def)



lemma positions_moving_raises:
  assumes "\<not> list_all speed_comparable (positions c)"
  shows "positions_moving e now c = Inl TypeError"
proof -
  from assms have "\<exists>p \<in> set (positions c). \<not> speed_comparable p"
    by (simp add: list_all_iff)
  from split_list_first_prop [OF this] obtain qs p ps where
    split: "positions c = qs @ p # ps" and p: "\<not> speed_comparable p"
    and qs: "\<forall>q \<in> set qs. \<not> \<not> speed_comparable q" by blast
  have "comprehension moving_cond (qs @ p # ps) = Inl TypeError"
  proof (rule comprehension_raises)
    show "moving_cond p = Inl TypeError" using p by (rule moving_cond_raises)
    show "\<exists>b. moving_cond q = Inr b" if "q \<in> set qs" for q
      using that qs by (auto simp: moving_cond_eq)
  qed
  then show ?thesis by (simp add: positions_moving_def Let_def split)
qed

lemma do_GET_routed:
  assumes "routed e req p"
  shows "\<exists>parsed. urlparse e (path req) = Inr parsed \<and> url_path parsed = p
           \<and> do_GET e now req c = (dispatch e now parsed c, c)"
  using assms by (auto simp: routed_def do_GET_def split: sum.splits)

lemma do_GET_cache: "snd (do_GET e now req c) = c"
  by (simp add: do_GET_def Let_def split: sum.splits bool.splits)



lemma dispatch_vehicle:
  "url_path parsed = ''/positions/vehicle'' \<Longrightarrow>
   dispatch e now parsed c =
     snapshot_response (positions_vehicle e now (parse_qs e (url_query parsed)) c)"
  by (simp add: dispatch_def Let_def)




text \<open>Authentication and the vehicle route.\<close>

lemma compare_digest_ascii:
  "is_ascii a \<Longrightarrow> is_ascii b \<Longrightarrow> compare_digest a b = Inr (a = b)"
  by (simp add: compare_digest_def)

lemma is_ascii_Nil [simp]: "is_ascii []"
  by (simp add: is_ascii_def)

lemma check_auth_eq:
  assumes key: "API_KEY e \<noteq> []" "is_ascii (API_KEY e)"
    and parsed: "urlparse e (path req) = Inr parsed"
    and param: "first_param (parse_qs e (url_query parsed)) ''api_key'' = Inr k"
    and ascii: "is_ascii (the_str (bearer_token req))" "is_ascii (the_str k)"
  shows "check_auth e req = Inr (bearer_token req = Some (API_KEY e) \<or> k = Some (API_KEY e))"
proof -
  let ?auth = "case authorization req of None \<Rightarrow> [] | Some a \<Rightarrow> a"
  have pre: "\<not> prefix ''Bearer '' ?auth \<Longrightarrow> bearer_token req = None"
    by (cases "authorization req") (simp_all add: bearer_token_def)
  have tok: "prefix ''Bearer '' ?auth \<Longrightarrow> bearer_token req = Some (drop 7 ?auth)"
    by (cases "authorization req") (simp_all add: bearer_token_def)
  have header: "(if prefix ''Bearer '' ?auth then compare_digest (drop 7 ?auth) (API_KEY e)
                else Inr False) = Inr (bearer_token req = Some (API_KEY e))"
  proof (cases "prefix ''Bearer '' ?auth")
    case True
    with tok have t: "bearer_token req = Some (drop 7 ?auth)" by simp
    with ascii(1) have "is_ascii (drop 7 ?auth)" by (simp add: the_str_def)
    with True t key(2) show ?thesis by (simp add: compare_digest_ascii)
  next
    case False
    with pre key(1) show ?thesis by auto
  qed
  have query: "(case k of None \<Rightarrow> Inr False
      | Some s \<Rightarrow> if s = [] then Inr False else compare_digest s (API_KEY e))
      = Inr (k = Some (API_KEY e))"
    using key ascii(2) by (cases k) (auto simp: the_str_def compare_digest_ascii)
  show ?thesis
    unfolding check_auth_def Let_def
    using key(1) by (simp add: header parsed param query)
qed

lemma first_param_supplied:
  "params k \<noteq> Some [] \<Longrightarrow> \<exists>v. first_param params k = Inr v \<and> (truthy_str v \<longleftrightarrow> supplied params k \<noteq> None)
     \<and> (truthy_str v \<longrightarrow> supplied params k = v)"
  by (auto simp: first_param_def supplied_def truthy_str_def split: option.splits list.splits)

lemma positions_vehicle_eq:
  assumes "params ''plate'' \<noteq> Some []" and "params ''number'' \<noteq> Some []"
  shows "positions_vehicle e now params c =
    Inr (with_positions
      (case supplied params ''plate'' of
         Some pl \<Rightarrow> [p \<leftarrow> positions c. sublist (upper e pl) (upper e (license_plate p))]
       | None \<Rightarrow>
          (case supplied params ''number'' of
             Some n \<Rightarrow> [p \<leftarrow> positions c. number p = JStr n]
           | None \<Rightarrow> positions c))
      (get (round1 e) now c))"
proof -
  from first_param_supplied [of params "''plate''", OF assms(1)] obtain pv where
    pv: "first_param params ''plate'' = Inr pv"
      "truthy_str pv \<longleftrightarrow> supplied params ''plate'' \<noteq> None"
      "truthy_str pv \<longrightarrow> supplied params ''plate'' = pv" by blast
  from first_param_supplied [of params "''number''", OF assms(2)] obtain nv where
    nv: "first_param params ''number'' = Inr nv"
      "truthy_str nv \<longleftrightarrow> supplied params ''number'' \<noteq> None"
      "truthy_str nv \<longrightarrow> supplied params ''number'' = nv" by blast
  show ?thesis
    unfolding positions_vehicle_def Let_def
    using pv nv by (auto simp: the_str_def split: option.splits)
qed

text \<open>
  Authentication of a \<^verbatim>\<open>GET\<close> request whose target is not exactly \<^verbatim>\<open>/health\<close>, with a
  non-empty ASCII key, a target that \<^verbatim>\<open>urlparse\<close> accepts and ASCII credentials:
  \<open>check_auth\<close> accepts exactly when the bearer token or the first \<^verbatim>\<open>api_key\<close> query
  parameter equals the key; an accepted request goes to the routes, every other one
  gets 401 with the error body; the target \<^verbatim>\<open>/health\<close> is answered without a look at
  the credentials. On these requests the code does what C8 says.
\<close>

theorem authentication:
  assumes key: "API_KEY e \<noteq> []" "is_ascii (API_KEY e)"
    and path: "path req \<noteq> ''/health''"
    and parsed: "urlparse e (path req) = Inr parsed"
    and param: "first_param (parse_qs e (url_query parsed)) ''api_key'' = Inr k"
    and ascii: "is_ascii (the_str (bearer_token req))" "is_ascii (the_str k)"
  shows "check_auth e req = Inr (bearer_token req = Some (API_KEY e) \<or> k = Some (API_KEY e))
    \<and> do_GET e now req c =
        (if bearer_token req = Some (API_KEY e) \<or> k = Some (API_KEY e)
         then (dispatch e now parsed c, c)
         else (Inr (send_json (ErrorBody unauthorized_message) 401), c))
    \<and> do_GET e now (req \<lparr> path := ''/health'' \<rparr>) c =
        (Inr (send_json (HealthBody (if is_healthy (stats c) then ''healthy'' else ''unhealthy'')
                (stats c)) 200), c)"
proof -
  note auth = check_auth_eq [OF key parsed param ascii]
  have "do_GET e now req c =
        (if bearer_token req = Some (API_KEY e) \<or> k = Some (API_KEY e)
         then (dispatch e now parsed c, c)
         else (Inr (send_json (ErrorBody unauthorized_message) 401), c))"
    using path by (simp add: do_GET_def auth parsed)
  moreover have "do_GET e now (req \<lparr> path := ''/health'' \<rparr>) c =
        (Inr (send_json (HealthBody (if is_healthy (stats c) then ''healthy'' else ''unhealthy'')
                (stats c)) 200), c)"
    by (simp add: do_GET_def Let_def)
  ultimately show ?thesis using auth by simp
qed

text \<open>The theorem for a request that carries the key as a query parameter.\<close>

theorem authentication_witness:
  "API_KEY example_env \<noteq> [] \<and> is_ascii (API_KEY example_env)
   \<and> path query_request \<noteq> ''/health''
   \<and> urlparse example_env (path query_request) = Inr query_url
   \<and> first_param (parse_qs example_env (url_query query_url)) ''api_key'' = Inr (Some ''secret'')
   \<and> is_ascii (the_str (bearer_token query_request)) \<and> is_ascii (the_str (Some ''secret''))
   \<and> check_auth example_env query_request = Inr True
   \<and> do_GET example_env 3500000 query_request fleet_cache
       = (dispatch example_env 3500000 query_url fleet_cache, fleet_cache)"
proof -
  have h1: "API_KEY example_env \<noteq> []" by code_simp
  have h2: "is_ascii (API_KEY example_env)" by code_simp
  have h3: "path query_request \<noteq> ''/health''" by code_simp
  have h4: "urlparse example_env (path query_request) = Inr query_url" by code_simp
  have h5: "first_param (parse_qs example_env (url_query query_url)) ''api_key''
              = Inr (Some ''secret'')" by code_simp
  have h6: "is_ascii (the_str (bearer_token query_request))" by code_simp
  have h7: "is_ascii (the_str (Some ''secret''))" by code_simp
  have k: "Some ''secret'' = Some (API_KEY example_env)" by code_simp
  from authentication [OF h1 h2 h3 h4 h5 h6 h7, of 3500000 fleet_cache] k
  have "check_auth example_env query_request = Inr True
    \<and> do_GET example_env 3500000 query_request fleet_cache
       = (dispatch example_env 3500000 query_url fleet_cache, fleet_cache)"
    by simp
  with h1 h2 h3 h4 h5 h6 h7 show ?thesis by simp
qed

text \<open>
  C8 at the input where the code leaves the claim: a bearer token with a character
  outside ASCII (here the code point 233, as the header bytes are decoded) is an invalid
  credential, and the request is not answered with 401: \<^verbatim>\<open>secrets.compare_digest\<close>
  raises \<^verbatim>\<open>TypeError\<close> on it and nothing in the handler catches the exception.
\<close>

theorem authentication_non_ascii:
  "do_GET example_env 3500000
     \<lparr> path = ''/positions'', authorization = Some (''Bearer '' @ [char_of (233 :: nat)]) \<rparr>
     fleet_cache
   = (Inl TypeError, fleet_cache)"
  by code_simp

text \<open>
  C10. For a request routed to \<^verbatim>\<open>/positions/vehicle\<close> whose query gives no empty list of
  values: when \<^verbatim>\<open>plate\<close> is supplied (present and not empty), the answer holds the
  records whose plate contains it, case-insensitively, whatever \<^verbatim>\<open>number\<close> is; when
  neither \<^verbatim>\<open>plate\<close> nor \<^verbatim>\<open>number\<close> is supplied (missing or empty), the answer is the
  whole snapshot, its count the number of cached positions. Both answers are given
  entry by entry: the positions, the count (the length of those positions), the time
  stamp, the age and the error of the cache, with status 200 and the cache unchanged.
\<close>

theorem vehicle_filter:
  assumes route: "routed e req ''/positions/vehicle''"
    and parsed: "urlparse e (path req) = Inr parsed"
    and params: "parse_qs e (url_query parsed) = params"
    and lists: "params ''plate'' \<noteq> Some []" "params ''number'' \<noteq> Some []"
  shows "(\<forall>pl. supplied params ''plate'' = Some pl \<longrightarrow>
            do_GET e now req c =
              (Inr \<lparr> status = 200,
                     body = SnapshotBody
                       \<lparr> v_positions =
                           [p \<leftarrow> positions c. sublist (upper e pl) (upper e (license_plate p))],
                         v_count =
                           length [p \<leftarrow> positions c.
                                     sublist (upper e pl) (upper e (license_plate p))],
                         v_last_update = last_update c,
                         v_cache_age_seconds = v_cache_age_seconds (get (round1 e) now c),
                         v_error = error c \<rparr> \<rparr>, c))
    \<and> (supplied params ''plate'' = None \<and> supplied params ''number'' = None \<longrightarrow>
            do_GET e now req c =
              (Inr \<lparr> status = 200,
                     body = SnapshotBody
                       \<lparr> v_positions = positions c,
                         v_count = length (positions c),
                         v_last_update = last_update c,
                         v_cache_age_seconds = v_cache_age_seconds (get (round1 e) now c),
                         v_error = error c \<rparr> \<rparr>, c))"
proof -
  from do_GET_routed [OF route, of now c] parsed
  have "do_GET e now req c = (dispatch e now parsed c, c)" and "url_path parsed = ''/positions/vehicle''"
    by auto
  then have run: "do_GET e now req c = (snapshot_response (positions_vehicle e now params c), c)"
    by (simp add: dispatch_vehicle params)
  have view: "with_positions ps (get (round1 e) now c) =
      \<lparr> v_positions = ps, v_count = length ps, v_last_update = last_update c,
        v_cache_age_seconds = v_cache_age_seconds (get (round1 e) now c),
        v_error = error c \<rparr>" for ps
    by (simp add: with_positions_def get_def Let_def)
  show ?thesis
    unfolding run positions_vehicle_eq [OF lists]
    by (simp add: snapshot_response_def send_json_def view)
qed

text \<open>The theorem for a request with both parameters, where only the plate counts (the
  parked vehicle has the number asked for and is left out), and for a request with
  neither, which gets both records.\<close>

theorem vehicle_filter_witness:
  "routed example_env vehicle_request ''/positions/vehicle''
   \<and> urlparse example_env (path vehicle_request) = Inr vehicle_url
   \<and> query_table ''plate=ab&number=7'' ''plate'' \<noteq> Some []
   \<and> query_table ''plate=ab&number=7'' ''number'' \<noteq> Some []
   \<and> supplied (query_table ''plate=ab&number=7'') ''plate'' = Some ''ab''
   \<and> supplied (query_table ''plate=ab&number=7'') ''number'' = Some ''7''
   \<and> number parked_record = JStr ''7''
   \<and> do_GET example_env 3500000 vehicle_request fleet_cache
       = (Inr \<lparr> status = 200,
                 body = SnapshotBody
                   \<lparr> v_positions = [scenario_record], v_count = 1,
                     v_last_update = Some 1000000, v_cache_age_seconds = Some (5 / 2),
                     v_error = None \<rparr> \<rparr>, fleet_cache)
   \<and> routed example_env bare_vehicle_request ''/positions/vehicle''
   \<and> urlparse example_env (path bare_vehicle_request) = Inr bare_vehicle_url
   \<and> supplied (query_table []) ''plate'' = None
   \<and> supplied (query_table []) ''number'' = None
   \<and> do_GET example_env 3500000 bare_vehicle_request fleet_cache
       = (Inr \<lparr> status = 200,
                 body = SnapshotBody
                   \<lparr> v_positions = [scenario_record, parked_record], v_count = 2,
                     v_last_update = Some 1000000, v_cache_age_seconds = Some (5 / 2),
                     v_error = None \<rparr> \<rparr>, fleet_cache)"
proof -
  have h1: "routed example_env vehicle_request ''/positions/vehicle''" by code_simp
  have h2: "urlparse example_env (path vehicle_request) = Inr vehicle_url" by code_simp
  have h3: "parse_qs example_env (url_query vehicle_url) = query_table ''plate=ab&number=7''"
    by (simp add: example_env_def vehicle_url_def)
  have h4: "query_table ''plate=ab&number=7'' ''plate'' \<noteq> Some []" by (simp add: query_table_def)
  have h5: "query_table ''plate=ab&number=7'' ''number'' \<noteq> Some []" by (simp add: query_table_def)
  have h6: "supplied (query_table ''plate=ab&number=7'') ''plate'' = Some ''ab''"
    by (simp add: query_table_def supplied_def)
  have h7: "supplied (query_table ''plate=ab&number=7'') ''number'' = Some ''7''"
    by (simp add: query_table_def supplied_def)
  have f: "[p \<leftarrow> positions fleet_cache.
             sublist (upper example_env ''ab'') (upper example_env (license_plate p))]
           = [scenario_record]" by code_simp
  have n: "number parked_record = JStr ''7''" by (simp add: parked_record_def)
  have lu: "last_update fleet_cache = Some 1000000" and er: "error fleet_cache = None"
    by (simp_all add: fleet_cache_def update_def DataCache_init_def)
  have ps: "positions fleet_cache = [scenario_record, parked_record]"
    by (simp add: fleet_cache_def update_def DataCache_init_def)
  have age: "v_cache_age_seconds (get (round1 example_env) 3500000 fleet_cache) = Some (5 / 2)"
    by code_simp
  from vehicle_filter [OF h1 h2 h3 h4 h5, of 3500000 fleet_cache] h6
  have "do_GET example_env 3500000 vehicle_request fleet_cache =
     (Inr \<lparr> status = 200,
            body = SnapshotBody
              \<lparr> v_positions =
                  [p \<leftarrow> positions fleet_cache.
                     sublist (upper example_env ''ab'') (upper example_env (license_plate p))],
                v_count =
                  length [p \<leftarrow> positions fleet_cache.
                     sublist (upper example_env ''ab'') (upper example_env (license_plate p))],
                v_last_update = last_update fleet_cache,
                v_cache_age_seconds =
                  v_cache_age_seconds (get (round1 example_env) 3500000 fleet_cache),
                v_error = error fleet_cache \<rparr> \<rparr>, fleet_cache)"
    by blast
  then have r1: "do_GET example_env 3500000 vehicle_request fleet_cache
       = (Inr \<lparr> status = 200,
                 body = SnapshotBody
                   \<lparr> v_positions = [scenario_record], v_count = 1,
                     v_last_update = Some 1000000, v_cache_age_seconds = Some (5 / 2),
                     v_error = None \<rparr> \<rparr>, fleet_cache)"
    unfolding f lu er age by simp
  have b1: "routed example_env bare_vehicle_request ''/positions/vehicle''" by code_simp
  have b2: "urlparse example_env (path bare_vehicle_request) = Inr bare_vehicle_url"
    by code_simp
  have b3: "parse_qs example_env (url_query bare_vehicle_url) = query_table []"
    by (simp add: example_env_def bare_vehicle_url_def)
  have b4: "query_table [] ''plate'' \<noteq> Some []" by (simp add: query_table_def)
  have b5: "query_table [] ''number'' \<noteq> Some []" by (simp add: query_table_def)
  have b6: "supplied (query_table []) ''plate'' = None"
    by (simp add: query_table_def supplied_def)
  have b7: "supplied (query_table []) ''number'' = None"
    by (simp add: query_table_def supplied_def)
  from vehicle_filter [OF b1 b2 b3 b4 b5, of 3500000 fleet_cache] b6 b7
  have "do_GET example_env 3500000 bare_vehicle_request fleet_cache =
     (Inr \<lparr> status = 200,
            body = SnapshotBody
              \<lparr> v_positions = positions fleet_cache,
                v_count = length (positions fleet_cache),
                v_last_update = last_update fleet_cache,
                v_cache_age_seconds =
                  v_cache_age_seconds (get (round1 example_env) 3500000 fleet_cache),
                v_error = error fleet_cache \<rparr> \<rparr>, fleet_cache)"
    by blast
  then have r2: "do_GET example_env 3500000 bare_vehicle_request fleet_cache
       = (Inr \<lparr> status = 200,
                 body = SnapshotBody
                   \<lparr> v_positions = [scenario_record, parked_record], v_count = 2,
                     v_last_update = Some 1000000, v_cache_age_seconds = Some (5 / 2),
                     v_error = None \<rparr> \<rparr>, fleet_cache)"
    unfolding ps lu er age by simp
  from h1 h2 h4 h5 h6 h7 n r1 b1 b2 b6 b7 r2 show ?thesis by simp
qed

end
